theory Spec2Isabelle
  imports Main
begin

section \<open>Values shared by the two adapters\<close>

text \<open>
  Both adapters are asynchronous TypeScript methods. A method that throws (or whose
  promise rejects) is modelled by \<open>Inl\<close> of the thrown value, a method that returns by
  \<open>Inr\<close> of the returned value. \<open>Error msg\<close> is \<open>new Error(msg)\<close>; \<open>TypeError\<close> is what
  the runtime throws when a destructuring pattern meets \<open>undefined\<close> or \<open>null\<close>, and what
  \<open>fetch\<close> rejects with when the network request fails.
\<close>

datatype js_error = Error string | TypeError

text \<open>The host platform's enumeration of payment session states.\<close>

datatype PaymentSessionStatus = AUTHORIZED | PENDING | REQUIRES_MORE | ERROR | CANCELED

text \<open>\<open>a ?? b\<close>: the left operand unless it is \<open>undefined\<close>.\<close>

definition nullish :: "'a option \<Rightarrow> 'a \<Rightarrow> 'a" where
  "nullish a b = (case a of None \<Rightarrow> b | Some v \<Rightarrow> v)"

text \<open>
  A template literal \<open>`${x}`\<close> of a property that may be missing: a missing property
  reads as \<open>undefined\<close> and is printed as such.
\<close>

definition interpolate :: "string option \<Rightarrow> string" where
  "interpolate x = (case x of None \<Rightarrow> ''undefined'' | Some v \<Rightarrow> v)"

text \<open>
  \<open>String(n)\<close> for a non-negative integer \<open>n\<close> (an HTTP status code): its decimal
  digits.
\<close>

fun String_of :: "nat \<Rightarrow> string" where
  "String_of n =
     (if n < 10 then [char_of (48 + n)]
      else String_of (n div 10) @ [char_of (48 + n mod 10)])"

declare String_of.simps [simp del]

text \<open>
  \<open>s.toLowerCase()\<close>. A \<open>char\<close> stands for a code unit below 256; on these the
  Unicode lower-case mapping moves \<open>A\<close>..\<open>Z\<close> and the accented capitals 192..222
  (but not the multiplication sign 215) up by 32 and leaves every other unit alone.
\<close>

definition toLowerCase_char :: "char \<Rightarrow> char" where
  "toLowerCase_char c =
     (let n = (of_char c :: nat)
      in if (65 \<le> n \<and> n \<le> 90) \<or> (192 \<le> n \<and> n \<le> 222 \<and> n \<noteq> 215)
         then char_of (n + 32) else c)"

definition toLowerCase :: "string \<Rightarrow> string" where
  "toLowerCase s = map toLowerCase_char s"

section \<open>The payment adapter (src/services/paymongo.ts)\<close>

subsection \<open>Data\<close>

text \<open>The structured error of the host platform, as \<open>buildError\<close> fills it.\<close>

record PaymentProcessorError =
  error :: string
  code :: string
  detail :: string

text \<open>
  The second argument of \<open>buildError\<close>: either an object with an optional \<open>code\<close> and a
  \<open>detail\<close>, or an \<open>Error\<close> instance with its \<open>message\<close> and its optional \<open>stack\<close>.
\<close>

datatype build_error_arg =
    Details "string option" string
  | ErrorInstance string "string option"

text \<open>The request handed to \<open>fetch\<close>: the URL and the \<open>options\<close> object.\<close>

record request =
  url :: string
  req_method :: string
  headers :: "(string \<times> string) list"
  req_body :: "string option"

text \<open>
  A payment intent as the vendor reports it: \<open>data.id\<close> and
  \<open>data.attributes.{amount, status, currency}\<close>. Amounts are integers in minor
  currency units, so that \<open>===\<close> on two amounts is equality of integers.
\<close>

record intent_attributes =
  amount :: int
  status :: string
  currency :: string

record payment_intent =
  intent_id :: string
  attributes :: intent_attributes

text \<open>
  What \<open>res.json()\<close> resolves to. \<open>Falsy\<close> is a body that \<open>!body\<close> accepts (JSON
  \<open>null\<close>); \<open>NoData\<close> is an object without a \<open>data\<close> member, such as the vendor's
  \<open>{errors: [...]}\<close> payload; \<open>Body d\<close> is \<open>{data: d}\<close> with a payment intent \<open>d\<close>.
\<close>

datatype paymongo_body = Falsy | NoData | Body payment_intent

text \<open>
  The response of \<open>fetch\<close>: \<open>res.ok\<close>, \<open>res.status\<close>, \<open>res.statusText\<close> and the outcome
  of \<open>res.json()\<close>, which rejects on a body that is not JSON.
\<close>

record response =
  res_ok :: bool
  res_status :: nat
  res_statusText :: string
  res_json :: "js_error + paymongo_body"

type_synonym fetch = "request \<Rightarrow> js_error + response"

text \<open>The cart of the host platform, with the two fields the adapter reads.\<close>

record region =
  currency_code :: string

record cart =
  total :: int
  region :: region

text \<open>
  The service object: \<open>cartService\<close> stands for \<open>cartService.retrieveWithTotals\<close>,
  called with a cart id that may be \<open>undefined\<close>; the other two fields are set once by
  the constructor and are read-only.
\<close>

record paymongo_service =
  cartService :: "string option \<Rightarrow> js_error + cart"
  paymongoAPIKey :: string
  baseURL :: string

text \<open>
  \<open>Record<string, unknown>\<close>: a dictionary from property names to values; the
  properties the adapter reads and writes are identifiers and status strings.
\<close>

type_synonym js_record = "string \<rightharpoonup> string"

text \<open>The value \<open>authorizePayment\<close> returns in its one \<open>return\<close> statement.\<close>

record authorize_result =
  session_status :: PaymentSessionStatus
  data :: js_record

subsection \<open>Operations\<close>

text \<open>\<open>buildError\<close> (lines 304-322).\<close>

definition buildError :: "string \<Rightarrow> build_error_arg \<Rightarrow> PaymentProcessorError" where
  "buildError message e =
     (let errorMessage = ''Paymongo error: '' @ message;
          code = (case e of ErrorInstance m st \<Rightarrow> Some m | Details c d \<Rightarrow> c);
          detail = (case e of ErrorInstance m st \<Rightarrow> st | Details c d \<Rightarrow> Some d)
      in \<lparr>error = errorMessage, code = nullish code '''', detail = nullish detail ''''\<rparr>)"

text \<open>
  \<open>fetchPaymongo\<close> (lines 32-60). The \<open>method\<close> parameter defaults to \<open>POST\<close>; the body,
  when present, is an object (always truthy) and is sent in its JSON text. On a response that is not \<open>ok\<close> the source
  calls \<open>buildError\<close> as a statement: the value is bound to nothing, neither returned nor
  thrown, and control falls through to \<open>return await res.json()\<close>.
\<close>

definition fetchPaymongo ::
  "paymongo_service \<Rightarrow> fetch \<Rightarrow> string option \<Rightarrow> string \<Rightarrow> string option
     \<Rightarrow> js_error + paymongo_body" where
  "fetchPaymongo this fetch method path body =
     (let options =
            \<lparr>url = ''https://api.paymongo.com/v1/'' @ path,
             req_method = nullish method ''POST'',
             headers =
               [(''accept'', ''application/json''),
                (''Content-Type'', ''application/json''),
                (''authorization'', ''Basic '' @ paymongoAPIKey this)],
             req_body = body\<rparr>
      in case fetch options of
           Inl e \<Rightarrow> Inl e
         | Inr res \<Rightarrow>
             (let discarded =
                    (if \<not> res_ok res
                     then Some (buildError ''Unable to fetch from paymongo''
                                  (Details (Some (String_of (res_status res)))
                                     (res_statusText res)))
                     else None)
              in res_json res))"

text \<open>
  The pattern \<open>{data: {id, attributes: {...}}}\<close> applied to a fetched body: it throws
  on a body with no \<open>data\<close> to take apart.
\<close>

definition destructure :: "paymongo_body \<Rightarrow> js_error + payment_intent" where
  "destructure b = (case b of Falsy \<Rightarrow> Inl TypeError | NoData \<Rightarrow> Inl TypeError | Body d \<Rightarrow> Inr d)"

text \<open>
  \<open>authorizePayment\<close> (lines 131-186). The source has one \<open>return\<close>, inside the two nested
  \<open>if\<close>s; on every other path it runs off the end of the function body and so resolves
  to \<open>undefined\<close>, which is \<open>None\<close> here. The \<open>console.log\<close> lines write to the console
  only and are left out.
\<close>

definition authorizePayment ::
  "paymongo_service \<Rightarrow> fetch \<Rightarrow> js_record \<Rightarrow> js_record
     \<Rightarrow> js_error + authorize_result option" where
  "authorizePayment this fetch paymentSessionData context =
     (let paymentIntentId = paymentSessionData ''paymentIntentId''
      in case fetchPaymongo this fetch (Some ''GET'')
                (''payment_intents/'' @ interpolate paymentIntentId) None of
           Inl e \<Rightarrow> Inl e
         | Inr paymentIntentData \<Rightarrow>
             (case destructure paymentIntentData of
                Inl e \<Rightarrow> Inl e
              | Inr d \<Rightarrow>
                  (case cartService this (context ''cart_id'') of
                     Inl e \<Rightarrow> Inl e
                   | Inr cart \<Rightarrow>
                       (let isValidAmount = (amount (attributes d) = total cart);
                            isValidCurrency =
                              (currency_code (region cart)
                                 = toLowerCase (currency (attributes d)))
                        in if status (attributes d) = ''succeeded''
                           then (if isValidAmount \<and> isValidCurrency
                                 then Inr (Some
                                        \<lparr>session_status = AUTHORIZED,
                                         data = [''paymentIntentId'' \<mapsto> intent_id d,
                                                 ''paymentStatus'' \<mapsto> status (attributes d)]\<rparr>)
                                 else Inr None)
                           else Inr None))))"

text \<open>\<open>getPaymentStatus\<close> (lines 188-227).\<close>

definition getPaymentStatus ::
  "paymongo_service \<Rightarrow> fetch \<Rightarrow> js_record \<Rightarrow> js_error + PaymentSessionStatus" where
  "getPaymentStatus this fetch paymentSessionData =
     (let paymentIntentId = paymentSessionData ''paymentIntentId''
      in case fetchPaymongo this fetch (Some ''GET'')
                (''payment_intents/'' @ interpolate paymentIntentId) None of
           Inl e \<Rightarrow> Inl e
         | Inr paymentIntentData \<Rightarrow>
             (if paymentIntentData = Falsy then Inr ERROR
              else case destructure paymentIntentData of
                     Inl e \<Rightarrow> Inl e
                   | Inr d \<Rightarrow>
                       (if status (attributes d) = ''succeeded'' then Inr AUTHORIZED
                        else if status (attributes d) = ''awaiting_next_action'' then Inr PENDING
                        else if status (attributes d) = ''awaiting_payment_method'' then Inr PENDING
                        else if status (attributes d) = ''processing'' then Inr PENDING
                        else Inr ERROR)))"

text \<open>\<open>refundPayment\<close> (lines 229-234): the body is a single \<open>throw\<close>.\<close>

definition refundPayment :: "js_record \<Rightarrow> int \<Rightarrow> js_error + js_record" where
  "refundPayment paymentSessionData refundAmount =
     Inl (Error ''Method not implemented. refundPayment'')"

text \<open>\<open>capturePayment\<close> (lines 286-290): the body is \<open>return paymentSessionData\<close>.\<close>

definition capturePayment :: "js_record \<Rightarrow> js_error + js_record" where
  "capturePayment paymentSessionData = Inr paymentSessionData"

text \<open>
  The status a call of \<open>authorizePayment\<close> hands to its caller, if it hands over one:
  none when the call throws and none when it resolves to \<open>undefined\<close>.
\<close>

definition returned_status ::
  "js_error + authorize_result option \<Rightarrow> PaymentSessionStatus option" where
  "returned_status r =
     (case r of Inl e \<Rightarrow> None | Inr None \<Rightarrow> None | Inr (Some a) \<Rightarrow> Some (session_status a))"

subsection \<open>A vendor and a cart store to run the adapter against\<close>

text \<open>
  The snapshot and the expectation of the specification, written as the records above:
  \<open>snapshot st a c\<close> is the payment intent \<open>pi_1\<close> with status \<open>st\<close>, amount \<open>a\<close> and
  currency \<open>c\<close>; \<open>expectation t c\<close> is a cart with total \<open>t\<close> in a region of currency \<open>c\<close>.
\<close>

definition snapshot :: "string \<Rightarrow> int \<Rightarrow> string \<Rightarrow> payment_intent" where
  "snapshot st a c =
     \<lparr>intent_id = ''pi_1'', attributes = \<lparr>amount = a, status = st, currency = c\<rparr>\<rparr>"

definition expectation :: "int \<Rightarrow> string \<Rightarrow> cart" where
  "expectation t c = \<lparr>total = t, region = \<lparr>currency_code = c\<rparr>\<rparr>"

text \<open>
  A vendor that knows one payment intent: a \<open>GET\<close> of its URL is answered with
  \<open>200 OK\<close> and the intent, every other request with \<open>404 Not Found\<close> and an error
  payload. \<open>vendor_null\<close> answers every request with \<open>200 OK\<close> and the body \<open>null\<close>.
\<close>

definition vendor_with :: "payment_intent \<Rightarrow> fetch" where
  "vendor_with d req =
     (if url req = ''https://api.paymongo.com/v1/payment_intents/'' @ intent_id d
         \<and> req_method req = ''GET''
      then Inr \<lparr>res_ok = True, res_status = 200, res_statusText = ''OK'',
                res_json = Inr (Body d)\<rparr>
      else Inr \<lparr>res_ok = False, res_status = 404, res_statusText = ''Not Found'',
                res_json = Inr NoData\<rparr>)"

definition vendor_null :: fetch where
  "vendor_null req =
     Inr \<lparr>res_ok = True, res_status = 200, res_statusText = ''OK'', res_json = Inr Falsy\<rparr>"

text \<open>A vendor that cannot be reached: every \<open>fetch\<close> rejects.\<close>

definition vendor_down :: fetch where
  "vendor_down req = Inl TypeError"

text \<open>A service whose cart store holds one cart, \<open>cart_1\<close>.\<close>

definition service_with :: "string \<Rightarrow> cart \<Rightarrow> paymongo_service" where
  "service_with key c =
     \<lparr>cartService =
        (\<lambda>cart_id. if cart_id = Some ''cart_1'' then Inr c
                   else Inl (Error ''Cart not found'')),
      paymongoAPIKey = key,
      baseURL = ''http://localhost:3000''\<rparr>"

definition session_of :: "string \<Rightarrow> js_record" where
  "session_of pid = [''paymentIntentId'' \<mapsto> pid]"

definition context_of :: "string \<Rightarrow> js_record" where
  "context_of cid = [''cart_id'' \<mapsto> cid]"

section \<open>The storage adapter (the file service)\<close>

text \<open>
  The argument of \<open>delete\<close>, and what the storage client's
  \<open>storage.from(bucket).remove(paths)\<close> resolves to: \<open>data\<close> and \<open>error\<close>, each of
  which may be \<open>null\<close>.
\<close>

record DeleteFileType =
  fileKey :: string

record remove_reply =
  removed_objects :: "string list option"
  remove_error :: "string option"

record file_service =
  bucket :: string
  storageUrl :: string
  storageClient :: "string \<Rightarrow> string list \<Rightarrow> remove_reply"

text \<open>
  What a call does to the outside: the \<open>remove\<close> request it sends (bucket and object
  paths) and the lines it hands to the logger, in order.
\<close>

datatype effect = Remove string "string list" | LoggerInfo string | LoggerError string

text \<open>
  \<open>delete\<close> (lines 97-109 of the file service). The path list is a literal of the
  source. A non-null \<open>data\<close> (an array, also an empty one) is truthy.
\<close>

definition delete :: "file_service \<Rightarrow> DeleteFileType \<Rightarrow> effect list \<times> (js_error + unit)" where
  "delete this fileData =
     (let paths = [''assets/34ecd528-0377-4dfa-b3f4-1f3aa9018b8a.jpg''];
          reply = storageClient this (bucket this) paths;
          sent = [Remove (bucket this) paths];
          info = (if removed_objects reply \<noteq> None then [LoggerInfo (fileKey fileData)] else [])
      in case remove_error reply of
           Some err \<Rightarrow> (sent @ info @ [LoggerError err], Inl (Error ''Error deleting file''))
         | None \<Rightarrow> (sent @ info, Inr ()))"

text \<open>The object paths a trace of effects asks the storage backend to remove.\<close>

primrec removed_paths :: "effect list \<Rightarrow> string list" where
  "removed_paths [] = []"
| "removed_paths (x # fx) =
     (case x of Remove b ps \<Rightarrow> ps | LoggerInfo l \<Rightarrow> [] | LoggerError l \<Rightarrow> [])
       @ removed_paths fx"

text \<open>The lines a trace of effects hands to \<open>logger.info\<close>.\<close>

primrec info_lines :: "effect list \<Rightarrow> string list" where
  "info_lines [] = []"
| "info_lines (x # fx) =
     (case x of Remove b ps \<Rightarrow> [] | LoggerInfo l \<Rightarrow> [l] | LoggerError l \<Rightarrow> [])
       @ info_lines fx"


section \<open>Running the adapter against the vendor and the cart store\<close>

lemma toLowerCase_PHP: "toLowerCase ''PHP'' = ''php''"
  by code_simp

lemma intent_id_snapshot: "intent_id (snapshot st a c) = ''pi_1''"
  by (simp add: snapshot_def)

lemma fetch_known:
  "fetchPaymongo (service_with key e) (vendor_with d) (Some ''GET'')
     (''payment_intents/'' @ interpolate (session_of (intent_id d) ''paymentIntentId'')) None
   = Inr (Body d)"
  by (simp add: fetchPaymongo_def vendor_with_def session_of_def interpolate_def nullish_def)

lemma fetch_snapshot:
  "fetchPaymongo (service_with key e) (vendor_with (snapshot st a c)) (Some ''GET'')
     (''payment_intents/'' @ interpolate (session_of ''pi_1'' ''paymentIntentId'')) None
   = Inr (Body (snapshot st a c))"
  using fetch_known [of key e "snapshot st a c"] by (simp add: intent_id_snapshot)

lemma fetch_unknown:
  "fetchPaymongo (service_with key e) (vendor_with (snapshot st a c)) (Some ''GET'')
     (''payment_intents/'' @ interpolate (session_of ''pi_2'' ''paymentIntentId'')) None
   = Inr NoData"
  by (simp add: fetchPaymongo_def vendor_with_def session_of_def interpolate_def nullish_def
        snapshot_def)

lemma fetch_null:
  "fetchPaymongo (service_with key e) vendor_null (Some ''GET'')
     (''payment_intents/'' @ interpolate (session_of ''pi_1'' ''paymentIntentId'')) None
   = Inr Falsy"
  by (simp add: fetchPaymongo_def vendor_null_def)

lemma fetch_down:
  "fetchPaymongo (service_with key e) vendor_down (Some ''GET'')
     (''payment_intents/'' @ interpolate (session_of ''pi_1'' ''paymentIntentId'')) None
   = Inl TypeError"
  by (simp add: fetchPaymongo_def vendor_down_def)

lemma cart_known: "cartService (service_with key e) (context_of ''cart_1'' ''cart_id'') = Inr e"
  by (simp add: service_with_def context_of_def)

lemma authorizePayment_run:
  "authorizePayment (service_with key e) (vendor_with (snapshot st a c))
     (session_of ''pi_1'') (context_of ''cart_1'')
   = (if st = ''succeeded'' \<and> a = total e \<and> currency_code (region e) = toLowerCase c
      then Inr (Some \<lparr>session_status = AUTHORIZED,
                      data = [''paymentIntentId'' \<mapsto> ''pi_1'', ''paymentStatus'' \<mapsto> st]\<rparr>)
      else Inr None)"
  unfolding authorizePayment_def Let_def fetch_snapshot cart_known
  by (simp add: destructure_def snapshot_def)

lemma getPaymentStatus_run:
  "getPaymentStatus (service_with key e) (vendor_with (snapshot st a c)) (session_of ''pi_1'')
   = (if st = ''succeeded'' then Inr AUTHORIZED
      else if st = ''awaiting_next_action'' \<or> st = ''awaiting_payment_method''
              \<or> st = ''processing'' then Inr PENDING
      else Inr ERROR)"
  unfolding getPaymentStatus_def Let_def fetch_snapshot
  by (simp add: destructure_def snapshot_def)

text \<open>
  Whatever \<open>res.ok\<close> says, \<open>fetchPaymongo\<close> hands over the outcome of \<open>res.json()\<close>.
\<close>

lemma fetchPaymongo_passes_body:
  "fetch \<lparr>url = ''https://api.paymongo.com/v1/'' @ path, req_method = nullish method ''POST'',
           headers = [(''accept'', ''application/json''),
                      (''Content-Type'', ''application/json''),
                      (''authorization'', ''Basic '' @ paymongoAPIKey this)],
           req_body = body\<rparr> = Inr res
   \<Longrightarrow> fetchPaymongo this fetch method path body = res_json res"
  by (simp add: fetchPaymongo_def)

section \<open>The claims\<close>

text \<open>
  C1. With the snapshot the vendor returns and the cart the platform holds,
  \<open>authorizePayment\<close> returns \<open>AUTHORIZED\<close> if and only if the status is exactly
  \<open>succeeded\<close>, the amount equals the cart total and the lower-cased currency equals the
  cart's currency code; so \<open>AUTHORIZED\<close> is never returned when one of the three fails.
\<close>

theorem authorizePayment_AUTHORIZED_iff:
  assumes fetched:
    "fetchPaymongo this fetch (Some ''GET'')
       (''payment_intents/'' @ interpolate (sd ''paymentIntentId'')) None = Inr (Body s)"
    and cart: "cartService this (ctx ''cart_id'') = Inr e"
  shows "returned_status (authorizePayment this fetch sd ctx) = Some AUTHORIZED
     \<longleftrightarrow> (status (attributes s) = ''succeeded''
          \<and> amount (attributes s) = total e
          \<and> toLowerCase (currency (attributes s)) = currency_code (region e))"
  using fetched cart
  by (auto simp: authorizePayment_def destructure_def returned_status_def)

theorem authorizePayment_AUTHORIZED_iff_witness:
  "fetchPaymongo (service_with ''a2V5'' (expectation 5000 ''php''))
     (vendor_with (snapshot ''succeeded'' 5000 ''PHP'')) (Some ''GET'')
     (''payment_intents/'' @ interpolate (session_of ''pi_1'' ''paymentIntentId'')) None
   = Inr (Body (snapshot ''succeeded'' 5000 ''PHP''))
   \<and> cartService (service_with ''a2V5'' (expectation 5000 ''php''))
       (context_of ''cart_1'' ''cart_id'') = Inr (expectation 5000 ''php'')
   \<and> returned_status
       (authorizePayment (service_with ''a2V5'' (expectation 5000 ''php''))
          (vendor_with (snapshot ''succeeded'' 5000 ''PHP''))
          (session_of ''pi_1'') (context_of ''cart_1'')) = Some AUTHORIZED
   \<and> returned_status
       (authorizePayment (service_with ''a2V5'' (expectation 5000 ''php''))
          (vendor_with (snapshot ''succeeded'' 4000 ''PHP''))
          (session_of ''pi_1'') (context_of ''cart_1'')) \<noteq> Some AUTHORIZED"
proof -
  note f = fetch_snapshot [of "''a2V5''" "expectation 5000 ''php''"]
  note c = cart_known [of "''a2V5''" "expectation 5000 ''php''"]
  have yes: "returned_status
       (authorizePayment (service_with ''a2V5'' (expectation 5000 ''php''))
          (vendor_with (snapshot ''succeeded'' 5000 ''PHP''))
          (session_of ''pi_1'') (context_of ''cart_1'')) = Some AUTHORIZED"
    using authorizePayment_AUTHORIZED_iff
            [where sd = "session_of ''pi_1''" and ctx = "context_of ''cart_1''",
             OF f [of "''succeeded''" 5000 "''PHP''"] c]
    by (simp add: snapshot_def expectation_def toLowerCase_PHP)
  have no: "returned_status
       (authorizePayment (service_with ''a2V5'' (expectation 5000 ''php''))
          (vendor_with (snapshot ''succeeded'' 4000 ''PHP''))
          (session_of ''pi_1'') (context_of ''cart_1'')) \<noteq> Some AUTHORIZED"
    using authorizePayment_AUTHORIZED_iff
            [where sd = "session_of ''pi_1''" and ctx = "context_of ''cart_1''",
             OF f [of "''succeeded''" 4000 "''PHP''"] c]
    by (simp add: snapshot_def expectation_def)
  show ?thesis
    using f [of "''succeeded''" 5000 "''PHP''"] c yes no by simp
qed

text \<open>
  C2. The specification's example of a mismatch: the vendor reports \<open>succeeded\<close> with
  amount 4000 in \<open>PHP\<close>, the cart expects 5000 in \<open>php\<close>. The claim asks for an explicit
  \<open>ERROR\<close>; the call resolves to \<open>undefined\<close> and hands over no status at all.
\<close>

theorem authorizePayment_mismatch_undefined:
  "authorizePayment (service_with ''a2V5'' (expectation 5000 ''php''))
     (vendor_with (snapshot ''succeeded'' 4000 ''PHP''))
     (session_of ''pi_1'') (context_of ''cart_1'') = Inr None
   \<and> returned_status
       (authorizePayment (service_with ''a2V5'' (expectation 5000 ''php''))
          (vendor_with (snapshot ''succeeded'' 4000 ''PHP''))
          (session_of ''pi_1'') (context_of ''cart_1'')) = None"
  by (simp add: authorizePayment_run returned_status_def expectation_def)

text \<open>
  C3. For each of the three pending-like statuses the claim asks for \<open>PENDING\<close>;
  \<open>authorizePayment\<close> resolves to \<open>undefined\<close> for all three, here with amount and
  currency matching the cart.
\<close>

theorem authorizePayment_pending_undefined:
  "authorizePayment (service_with ''a2V5'' (expectation 5000 ''php''))
     (vendor_with (snapshot ''awaiting_next_action'' 5000 ''PHP''))
     (session_of ''pi_1'') (context_of ''cart_1'') = Inr None
   \<and> authorizePayment (service_with ''a2V5'' (expectation 5000 ''php''))
     (vendor_with (snapshot ''awaiting_payment_method'' 5000 ''PHP''))
     (session_of ''pi_1'') (context_of ''cart_1'') = Inr None
   \<and> authorizePayment (service_with ''a2V5'' (expectation 5000 ''php''))
     (vendor_with (snapshot ''processing'' 5000 ''PHP''))
     (session_of ''pi_1'') (context_of ''cart_1'') = Inr None"
  by (simp add: authorizePayment_run)

text \<open>
  C4. On the status \<open>processing\<close> (and on \<open>failed\<close>), where the amount and currency
  gate is not in play, \<open>getPaymentStatus\<close> returns \<open>PENDING\<close> (and \<open>ERROR\<close>) while
  \<open>authorizePayment\<close> resolves to \<open>undefined\<close>: the two do not produce the same result.
\<close>

theorem getPaymentStatus_authorizePayment_differ:
  "getPaymentStatus (service_with ''a2V5'' (expectation 5000 ''php''))
     (vendor_with (snapshot ''processing'' 5000 ''PHP'')) (session_of ''pi_1'') = Inr PENDING
   \<and> returned_status
       (authorizePayment (service_with ''a2V5'' (expectation 5000 ''php''))
          (vendor_with (snapshot ''processing'' 5000 ''PHP''))
          (session_of ''pi_1'') (context_of ''cart_1'')) = None
   \<and> getPaymentStatus (service_with ''a2V5'' (expectation 5000 ''php''))
     (vendor_with (snapshot ''failed'' 5000 ''PHP'')) (session_of ''pi_1'') = Inr ERROR
   \<and> returned_status
       (authorizePayment (service_with ''a2V5'' (expectation 5000 ''php''))
          (vendor_with (snapshot ''failed'' 5000 ''PHP''))
          (session_of ''pi_1'') (context_of ''cart_1'')) = None"
  by (simp add: authorizePayment_run getPaymentStatus_run returned_status_def)

text \<open>
  C5. For a payment intent the vendor fetch yields, \<open>getPaymentStatus\<close> returns
  \<open>AUTHORIZED\<close> when its status is \<open>succeeded\<close>, \<open>PENDING\<close> when it is one of
  \<open>awaiting_next_action\<close>, \<open>awaiting_payment_method\<close>, \<open>processing\<close>, and \<open>ERROR\<close> for
  every other status; it returns \<open>ERROR\<close> as well when the fetched body is absent
  (falsy). When the snapshot cannot be fetched, because \<open>fetch\<close> or \<open>res.json()\<close>
  rejects, the call does not return \<open>ERROR\<close>: the rejection goes to the caller as it is.
\<close>

theorem getPaymentStatus_mapping:
  "(fetchPaymongo this fetch (Some ''GET'')
       (''payment_intents/'' @ interpolate (sd ''paymentIntentId'')) None = Inl err
      \<longrightarrow> getPaymentStatus this fetch sd = Inl err)
   \<and> (fetchPaymongo this fetch (Some ''GET'')
       (''payment_intents/'' @ interpolate (sd ''paymentIntentId'')) None = Inr Falsy
      \<longrightarrow> getPaymentStatus this fetch sd = Inr ERROR)
   \<and> (fetchPaymongo this fetch (Some ''GET'')
       (''payment_intents/'' @ interpolate (sd ''paymentIntentId'')) None = Inr (Body s)
      \<longrightarrow> getPaymentStatus this fetch sd
          = Inr (if status (attributes s) = ''succeeded'' then AUTHORIZED
                 else if status (attributes s)
                           \<in> {''awaiting_next_action'', ''awaiting_payment_method'',
                                ''processing''}
                 then PENDING
                 else ERROR))"
  by (auto simp: getPaymentStatus_def destructure_def)

theorem getPaymentStatus_mapping_witness:
  "getPaymentStatus (service_with ''a2V5'' (expectation 5000 ''php'')) vendor_down
     (session_of ''pi_1'') = Inl TypeError
   \<and> getPaymentStatus (service_with ''a2V5'' (expectation 5000 ''php'')) vendor_null
       (session_of ''pi_1'') = Inr ERROR
   \<and> getPaymentStatus (service_with ''a2V5'' (expectation 5000 ''php''))
       (vendor_with (snapshot ''succeeded'' 5000 ''PHP'')) (session_of ''pi_1'') = Inr AUTHORIZED
   \<and> getPaymentStatus (service_with ''a2V5'' (expectation 5000 ''php''))
       (vendor_with (snapshot ''processing'' 5000 ''PHP'')) (session_of ''pi_1'') = Inr PENDING
   \<and> getPaymentStatus (service_with ''a2V5'' (expectation 5000 ''php''))
       (vendor_with (snapshot ''failed'' 5000 ''PHP'')) (session_of ''pi_1'') = Inr ERROR"
proof -
  note f = fetch_snapshot [of "''a2V5''" "expectation 5000 ''php''"]
  note n = fetch_null [of "''a2V5''" "expectation 5000 ''php''"]
  note d = fetch_down [of "''a2V5''" "expectation 5000 ''php''"]
  have down: "getPaymentStatus (service_with ''a2V5'' (expectation 5000 ''php'')) vendor_down
     (session_of ''pi_1'') = Inl TypeError"
    using getPaymentStatus_mapping
            [where sd = "session_of ''pi_1''" and fetch = vendor_down and err = TypeError
               and this = "service_with ''a2V5'' (expectation 5000 ''php'')"]
    by (simp only: d simp_thms)
  have absent: "getPaymentStatus (service_with ''a2V5'' (expectation 5000 ''php'')) vendor_null
     (session_of ''pi_1'') = Inr ERROR"
    using getPaymentStatus_mapping
            [where sd = "session_of ''pi_1''" and fetch = vendor_null
               and this = "service_with ''a2V5'' (expectation 5000 ''php'')"]
    by (simp only: n simp_thms)
  have known: "getPaymentStatus (service_with ''a2V5'' (expectation 5000 ''php''))
       (vendor_with (snapshot st 5000 ''PHP'')) (session_of ''pi_1'')
     = Inr (if st = ''succeeded'' then AUTHORIZED
            else if st \<in> {''awaiting_next_action'', ''awaiting_payment_method'', ''processing''}
            then PENDING else ERROR)" for st
  proof -
    have st: "status (attributes (snapshot st 5000 ''PHP'')) = st"
      by (simp add: snapshot_def)
    show ?thesis
      using getPaymentStatus_mapping
              [where sd = "session_of ''pi_1''" and s = "snapshot st 5000 ''PHP''"
                 and fetch = "vendor_with (snapshot st 5000 ''PHP'')"
                 and this = "service_with ''a2V5'' (expectation 5000 ''php'')"]
      by (simp only: f st simp_thms)
  qed
  show ?thesis
    using down absent known [of "''succeeded''"] known [of "''processing''"]
      known [of "''failed''"]
    by simp
qed

text \<open>
  The claim as first stated also asks for \<open>ERROR\<close> when the snapshot cannot be fetched.
  With the vendor out of reach the call rejects with the error of \<open>fetch\<close>, and on the
  vendor's \<open>404\<close> payload for an unknown intent it throws in the destructuring; neither
  result is \<open>ERROR\<close>.
\<close>

theorem getPaymentStatus_unfetchable_counterexample:
  "getPaymentStatus (service_with ''a2V5'' (expectation 5000 ''php'')) vendor_down
     (session_of ''pi_1'') \<noteq> Inr ERROR
   \<and> getPaymentStatus (service_with ''a2V5'' (expectation 5000 ''php''))
       (vendor_with (snapshot ''succeeded'' 5000 ''PHP'')) (session_of ''pi_2'') \<noteq> Inr ERROR"
proof -
  have down: "getPaymentStatus (service_with ''a2V5'' (expectation 5000 ''php'')) vendor_down
     (session_of ''pi_1'') = Inl TypeError"
    unfolding getPaymentStatus_def Let_def fetch_down by simp
  have unknown: "getPaymentStatus (service_with ''a2V5'' (expectation 5000 ''php''))
       (vendor_with (snapshot ''succeeded'' 5000 ''PHP'')) (session_of ''pi_2'') = Inl TypeError"
    unfolding getPaymentStatus_def Let_def fetch_unknown by (simp add: destructure_def)
  show ?thesis using down unknown by simp
qed

text \<open>
  C6. The vendor answers a request for an intent it does not know with
  \<open>404 Not Found\<close> and an error payload. \<open>fetchPaymongo\<close> builds the structured error
  with code \<open>404\<close> and detail \<open>Not Found\<close>, drops it, and returns the payload as if it
  were the answer; \<open>getPaymentStatus\<close> and \<open>authorizePayment\<close> then go on with that
  payload and fail in the destructuring.
\<close>

theorem fetchPaymongo_not_ok_returns_body:
  "vendor_with (snapshot ''succeeded'' 5000 ''PHP'')
     \<lparr>url = ''https://api.paymongo.com/v1/payment_intents/pi_2'', req_method = ''GET'',
      headers = [(''accept'', ''application/json''), (''Content-Type'', ''application/json''),
                 (''authorization'', ''Basic a2V5'')],
      req_body = None\<rparr>
   = Inr \<lparr>res_ok = False, res_status = 404, res_statusText = ''Not Found'',
          res_json = Inr NoData\<rparr>
   \<and> buildError ''Unable to fetch from paymongo'' (Details (Some (String_of 404)) ''Not Found'')
     = \<lparr>error = ''Paymongo error: Unable to fetch from paymongo'', code = ''404'',
        detail = ''Not Found''\<rparr>
   \<and> fetchPaymongo (service_with ''a2V5'' (expectation 5000 ''php''))
       (vendor_with (snapshot ''succeeded'' 5000 ''PHP'')) (Some ''GET'')
       ''payment_intents/pi_2'' None = Inr NoData
   \<and> getPaymentStatus (service_with ''a2V5'' (expectation 5000 ''php''))
       (vendor_with (snapshot ''succeeded'' 5000 ''PHP'')) (session_of ''pi_2'') = Inl TypeError
   \<and> authorizePayment (service_with ''a2V5'' (expectation 5000 ''php''))
       (vendor_with (snapshot ''succeeded'' 5000 ''PHP'')) (session_of ''pi_2'')
       (context_of ''cart_1'') = Inl TypeError"
proof -
  have digits: "String_of 404 = ''404''"
    by code_simp
  have reply: "vendor_with (snapshot ''succeeded'' 5000 ''PHP'')
     \<lparr>url = ''https://api.paymongo.com/v1/payment_intents/pi_2'', req_method = ''GET'',
      headers = [(''accept'', ''application/json''), (''Content-Type'', ''application/json''),
                 (''authorization'', ''Basic a2V5'')],
      req_body = None\<rparr>
   = Inr \<lparr>res_ok = False, res_status = 404, res_statusText = ''Not Found'',
          res_json = Inr NoData\<rparr>"
    by (simp add: vendor_with_def snapshot_def)
  have built: "buildError ''Unable to fetch from paymongo''
       (Details (Some (String_of 404)) ''Not Found'')
     = \<lparr>error = ''Paymongo error: Unable to fetch from paymongo'', code = ''404'',
        detail = ''Not Found''\<rparr>"
    by (simp add: buildError_def nullish_def digits)
  have fetched: "fetchPaymongo (service_with ''a2V5'' (expectation 5000 ''php''))
       (vendor_with (snapshot ''succeeded'' 5000 ''PHP'')) (Some ''GET'')
       (''payment_intents/'' @ interpolate (session_of ''pi_2'' ''paymentIntentId'')) None
     = Inr NoData"
    by (rule fetch_unknown)
  have path: "''payment_intents/'' @ interpolate (session_of ''pi_2'' ''paymentIntentId'')
     = ''payment_intents/pi_2''"
    by (simp add: session_of_def interpolate_def)
  have status: "getPaymentStatus (service_with ''a2V5'' (expectation 5000 ''php''))
       (vendor_with (snapshot ''succeeded'' 5000 ''PHP'')) (session_of ''pi_2'') = Inl TypeError"
    unfolding getPaymentStatus_def Let_def fetched by (simp add: destructure_def)
  have authorize: "authorizePayment (service_with ''a2V5'' (expectation 5000 ''php''))
       (vendor_with (snapshot ''succeeded'' 5000 ''PHP'')) (session_of ''pi_2'')
       (context_of ''cart_1'') = Inl TypeError"
    unfolding authorizePayment_def Let_def fetched by (simp add: destructure_def)
  show ?thesis
    using reply built fetched status authorize by (simp only: path simp_thms)
qed

text \<open>
  C7. For every input, \<open>capturePayment\<close> returns normally, handing its argument back
  unchanged; it does not fail.
\<close>

theorem capturePayment_returns_input:
  "capturePayment paymentSessionData = Inr paymentSessionData"
  by (simp add: capturePayment_def)

text \<open>
  At the session of the intent \<open>pi_1\<close> the call returns that session, and the result is
  not an error.
\<close>

theorem capturePayment_not_implemented_counterexample:
  "capturePayment (session_of ''pi_1'') = Inr (session_of ''pi_1'')
   \<and> \<not> isl (capturePayment (session_of ''pi_1''))"
  by (simp add: capturePayment_def)

text \<open>
  C8. For every input, \<open>refundPayment\<close> throws the error
  \<open>Method not implemented. refundPayment\<close>; it never returns a value.
\<close>

theorem refundPayment_not_implemented:
  "refundPayment paymentSessionData refundAmount
     = Inl (Error ''Method not implemented. refundPayment'')
   \<and> isl (refundPayment paymentSessionData refundAmount)"
  by (simp add: refundPayment_def)

text \<open>
  C9. \<open>authorizePayment\<close> is a function of what the vendor fetch and the cart lookup
  yield: two invocations, whatever their service objects, session data and contexts,
  in which the fetch yields the same outcome and the cart lookup yields the same outcome,
  produce the same output.
\<close>

theorem authorizePayment_deterministic:
  assumes "fetchPaymongo this1 fetch1 (Some ''GET'')
             (''payment_intents/'' @ interpolate (sd1 ''paymentIntentId'')) None
           = fetchPaymongo this2 fetch2 (Some ''GET'')
             (''payment_intents/'' @ interpolate (sd2 ''paymentIntentId'')) None"
    and "cartService this1 (ctx1 ''cart_id'') = cartService this2 (ctx2 ''cart_id'')"
  shows "authorizePayment this1 fetch1 sd1 ctx1 = authorizePayment this2 fetch2 sd2 ctx2"
  using assms by (simp add: authorizePayment_def cong: sum.case_cong)

theorem authorizePayment_deterministic_witness:
  "fetchPaymongo (service_with ''a2V5'' (expectation 5000 ''php''))
     (vendor_with (snapshot ''succeeded'' 5000 ''PHP'')) (Some ''GET'')
     (''payment_intents/'' @ interpolate (session_of ''pi_1'' ''paymentIntentId'')) None
   = fetchPaymongo (service_with ''b3RoZXI='' (expectation 5000 ''php''))
     (vendor_with (snapshot ''succeeded'' 5000 ''PHP'')) (Some ''GET'')
     (''payment_intents/'' @ interpolate (session_of ''pi_1'' ''paymentIntentId'')) None
   \<and> cartService (service_with ''a2V5'' (expectation 5000 ''php''))
       (context_of ''cart_1'' ''cart_id'')
     = cartService (service_with ''b3RoZXI='' (expectation 5000 ''php''))
       (context_of ''cart_1'' ''cart_id'')
   \<and> authorizePayment (service_with ''a2V5'' (expectation 5000 ''php''))
       (vendor_with (snapshot ''succeeded'' 5000 ''PHP''))
       (session_of ''pi_1'') (context_of ''cart_1'')
     = authorizePayment (service_with ''b3RoZXI='' (expectation 5000 ''php''))
       (vendor_with (snapshot ''succeeded'' 5000 ''PHP''))
       (session_of ''pi_1'') (context_of ''cart_1'')"
proof -
  have f: "fetchPaymongo (service_with ''a2V5'' (expectation 5000 ''php''))
     (vendor_with (snapshot ''succeeded'' 5000 ''PHP'')) (Some ''GET'')
     (''payment_intents/'' @ interpolate (session_of ''pi_1'' ''paymentIntentId'')) None
   = fetchPaymongo (service_with ''b3RoZXI='' (expectation 5000 ''php''))
     (vendor_with (snapshot ''succeeded'' 5000 ''PHP'')) (Some ''GET'')
     (''payment_intents/'' @ interpolate (session_of ''pi_1'' ''paymentIntentId'')) None"
    by (simp only: fetch_snapshot)
  have c: "cartService (service_with ''a2V5'' (expectation 5000 ''php''))
       (context_of ''cart_1'' ''cart_id'')
     = cartService (service_with ''b3RoZXI='' (expectation 5000 ''php''))
       (context_of ''cart_1'' ''cart_id'')"
    by (simp only: cart_known)
  show ?thesis
    using f c
      authorizePayment_deterministic
        [where ?sd1.0 = "session_of ''pi_1''" and ?sd2.0 = "session_of ''pi_1''"
           and ?ctx1.0 = "context_of ''cart_1''" and ?ctx2.0 = "context_of ''cart_1''",
         OF f c]
    by (simp only: simp_thms)
qed

text \<open>The \<open>fileKey\<close> of the argument is what \<open>delete\<close> logs when the backend reports data.\<close>

lemma delete_logs_fileKey:
  "removed_objects
     (storageClient this (bucket this) [''assets/34ecd528-0377-4dfa-b3f4-1f3aa9018b8a.jpg''])
     = Some objs
   \<Longrightarrow> info_lines (fst (delete this fileData)) = [fileKey fileData]"
  by (simp add: delete_def Let_def split: option.split)

text \<open>
  C10. For every argument \<open>fileData\<close>, and whatever the storage backend replies, the one
  object path \<open>delete\<close> asks the backend to remove is the literal
  \<open>assets/34ecd528-0377-4dfa-b3f4-1f3aa9018b8a.jpg\<close>: the object removed does not depend
  on \<open>fileData\<close>, whose \<open>fileKey\<close> reaches the logger only.
\<close>

theorem delete_removes_fixed_path:
  "removed_paths (fst (delete this fileData))
     = [''assets/34ecd528-0377-4dfa-b3f4-1f3aa9018b8a.jpg'']
   \<and> removed_paths (fst (delete this fileData)) = removed_paths (fst (delete this fileData'))"
  by (simp add: delete_def Let_def split: option.split)

end
